theory Spec2Isabelle
  imports Complex_Main
begin

section \<open>Numbers\<close>

text \<open>
  The Go sources compute on \<open>float64\<close> and \<open>int\<close>. A \<open>float64\<close> value is modelled
  by the real number it denotes. Go rounds the result of every \<open>float64\<close> operation to
  the nearest \<open>float64\<close>, ties to the even significand: \<open>round_f64\<close> is that
  rounding, to 53 significant bits. Its exponent range is unbounded, so an overflow to
  an infinity, a result below the normal range (about \<open>2.2e-308\<close>) and NaN are not
  represented.

  The rounding is written out where it decides an integer: in \<open>CalculateSize\<close> and
  \<open>CalculateLeverage\<close>, whose operations lead to \<open>math.Ceil\<close>, each operation is
  followed by \<open>round_f64\<close>, as in Go. The other \<open>float64\<close> results (the take-profit
  price, the PnL and distance percentages, \<open>RiskAmount\<close> and \<open>NotionalValue\<close>) are
  computed in exact arithmetic; Go's values differ from them by the rounding error only.

  Go's \<open>int\<close> is modelled by an unbounded integer; no function below does arithmetic
  on an \<open>int\<close>, they only compare and return it. The conversion \<open>int(x)\<close> of a value
  beyond the range of \<open>int\<close> is implementation-dependent in Go and is not
  represented.

  A float division whose divisor is zero does not panic in Go: it yields an infinity
  or NaN. Such a value is outside the model, so the division is written as
  \<open>fdiv\<close>, which is \<open>None\<close> exactly when the divisor is zero, and every function
  that divides returns an option. \<open>None\<close> never stands for a Go error value.
\<close>

type_synonym float64 = real

text \<open>The integer nearest to \<open>y\<close>, the even one of the two when \<open>y\<close> lies halfway.\<close>

definition rne :: "real \<Rightarrow> int" where
  "rne y = (let f = \<lfloor>y\<rfloor>
            in if y - of_int f < 1 / 2 then f
               else if 1 / 2 < y - of_int f then f + 1
               else if even f then f else f + 1)"

text \<open>
  The \<open>float64\<close> nearest to \<open>x\<close>: with \<open>2 ^ k \<le> |x| < 2 ^ (k + 1)\<close>, the multiple
  of \<open>2 ^ (k - 52)\<close> nearest to \<open>x\<close>.
\<close>

definition round_f64 :: "real \<Rightarrow> float64" where
  "round_f64 x =
     (if x = 0 then 0
      else (let e = \<lfloor>log 2 \<bar>x\<bar>\<rfloor> - 52
            in sgn x * of_int (rne (\<bar>x\<bar> / 2 powr of_int e)) * 2 powr of_int e))"

definition fdiv :: "float64 \<Rightarrow> float64 \<Rightarrow> float64 option" where
  "fdiv x y = (if y = 0 then None else Some (x / y))"

text \<open>
  \<open>int(math.Ceil(x))\<close> of the source, for a \<open>float64\<close> \<open>x\<close>: \<open>math.Ceil\<close> is
  exact, and so is the conversion of a value within the range of \<open>int\<close>.
\<close>

definition int_Ceil :: "float64 \<Rightarrow> int" where
  "int_Ceil x = \<lceil>x\<rceil>"

section \<open>Common types (package \<open>strategy\<close>, re-exported from \<open>types\<close>)\<close>

text \<open>
  \<open>Side\<close>, \<open>OrderType\<close>, \<open>StopLossType\<close>, \<open>TakeProfitType\<close> and \<open>ActionType\<close> are
  declared \<open>type X string\<close> with named constants, so a value of such a type can be
  any string, not only one of the constants.
\<close>

type_synonym Side = string

definition SideLong :: Side where
  "SideLong = ''LONG''"

definition SideShort :: Side where
  "SideShort = ''SHORT''"

type_synonym OrderType = string

type_synonym StopLossType = string

definition StopLossTypeFixed :: StopLossType where
  "StopLossTypeFixed = ''FIXED''"

definition StopLossTypeTrailing :: StopLossType where
  "StopLossTypeTrailing = ''TRAILING''"

type_synonym TakeProfitType = string

definition TakeProfitTypeLimit :: TakeProfitType where
  "TakeProfitTypeLimit = ''LIMIT''"

definition TakeProfitTypeTrailing :: TakeProfitType where
  "TakeProfitTypeTrailing = ''TRAILING''"

type_synonym ActionType = string

definition ActionTypeNone :: ActionType where
  "ActionTypeNone = ''NONE''"

text \<open>A reading of the clock (\<open>time.Time\<close>).\<close>

type_synonym Time = int

text \<open>A value stored under \<open>interface{}\<close> in \<open>StrategyParams\<close>.\<close>

datatype Any = AnyFloat float64 | AnyInt int | AnyString string | AnyBool bool

type_synonym StrategyParams = "string \<rightharpoonup> Any"

record Position =
  Symbol :: string
  Side :: Side
  Size :: float64
  EntryPrice :: float64
  MarkPrice :: float64
  UnrealizedPnL :: float64
  Leverage :: int
  LiquidationPrice :: float64

record OrderRequest =
  Symbol :: string
  Side :: Side
  Type :: OrderType
  Size :: float64
  Price :: float64
  StopPrice :: float64
  ReduceOnly :: bool

record PositionParams =
  Symbol :: string
  Side :: Side
  EntryPrice :: float64
  StopLoss :: float64
  AccountBalance :: float64
  RiskPercent :: float64
  MaxLeverage :: int
  Params :: StrategyParams

record StopLossLevel =
  Price :: float64
  Type :: StopLossType
  ActivationPrice :: float64
  CallbackRate :: float64

record TakeProfitLevel =
  Price :: float64
  Percentage :: float64
  Type :: TakeProfitType
  ActivationPrice :: float64
  CallbackRate :: float64

text \<open>
  \<open>StopLoss\<close> is a pointer and may be nil (\<open>None\<close>); \<open>TakeProfits\<close> is a slice of
  pointers to levels that the strategy allocates itself.
\<close>

record PositionPlan =
  Symbol :: string
  Side :: Side
  Size :: float64
  EntryPrice :: float64
  Leverage :: int
  StopLoss :: "StopLossLevel option"
  TakeProfits :: "TakeProfitLevel list"
  RiskAmount :: float64
  RiskPercent :: float64
  NotionalValue :: float64
  StrategyName :: string
  Timestamp :: Time

record StrategyAction =
  Type :: ActionType
  Reason :: string
  Orders :: "OrderRequest list"

section \<open>Errors\<close>

text \<open>
  Each \<open>fmt.Errorf\<close> of the sources is a constructor carrying the values its
  message prints; \<open>ValidationFailed\<close> is the strategy's wrapper
  \<open>"validation failed: %w"\<close>. A Go \<open>error\<close> result is an \<open>error option\<close>, with
  \<open>None\<close> for nil.
\<close>

datatype error =
    EntryPriceNotPositive float64
  | StopLossNotPositive float64
  | RiskPercentOutOfRange float64
  | AccountEquityNotPositive float64
  | LongStopLossNotBelowEntry float64 float64
  | ShortStopLossNotAboveEntry float64 float64
  | ValidationFailed error

section \<open>Package \<open>calculator\<close>\<close>

record Calculator =
  maxLeverage :: int

definition calculator_New :: "int \<Rightarrow> Calculator" where
  "calculator_New maxLeverage' = \<lparr>maxLeverage = maxLeverage'\<rparr>"

definition CalculateSize ::
  "Calculator \<Rightarrow> float64 \<Rightarrow> float64 \<Rightarrow> float64 \<Rightarrow> float64 \<Rightarrow> Side \<Rightarrow> float64 option" where
  "CalculateSize c balance riskPercent entry stopLoss side =
     (let riskAmount = round_f64 (balance * round_f64 (riskPercent / 100));
          priceRisk = (if side = SideLong then round_f64 (entry - stopLoss)
                       else round_f64 (stopLoss - entry))
      in map_option round_f64 (fdiv riskAmount priceRisk))"

definition CalculateLeverage ::
  "Calculator \<Rightarrow> float64 \<Rightarrow> float64 \<Rightarrow> float64 \<Rightarrow> int \<Rightarrow> int option" where
  "CalculateLeverage c size' price balance maxLeverage' =
     (let notional = round_f64 (size' * price)
      in case map_option round_f64 (fdiv notional balance) of
           None \<Rightarrow> None
         | Some q \<Rightarrow>
             (let requiredLeverage = int_Ceil q
              in if requiredLeverage > maxLeverage' then Some maxLeverage'
                 else if requiredLeverage < 1 then Some 1
                 else Some requiredLeverage))"

definition CalculateRRTakeProfit ::
  "Calculator \<Rightarrow> float64 \<Rightarrow> float64 \<Rightarrow> float64 \<Rightarrow> Side \<Rightarrow> float64" where
  "CalculateRRTakeProfit c entry stopLoss rrRatio' side =
     (let slDistance = \<bar>entry - stopLoss\<bar>
      in if side = SideLong then entry + (slDistance * rrRatio')
         else entry - (slDistance * rrRatio'))"

definition ValidateStopLoss ::
  "Calculator \<Rightarrow> Side \<Rightarrow> float64 \<Rightarrow> float64 \<Rightarrow> error option" where
  "ValidateStopLoss c side entry stopLoss =
     (if side = SideLong \<and> stopLoss \<ge> entry
        then Some (LongStopLossNotBelowEntry stopLoss entry)
      else if side = SideShort \<and> stopLoss \<le> entry
        then Some (ShortStopLossNotAboveEntry stopLoss entry)
      else None)"

definition CalculatePnLPercent ::
  "Calculator \<Rightarrow> Side \<Rightarrow> float64 \<Rightarrow> float64 \<Rightarrow> float64 option" where
  "CalculatePnLPercent c side entryPrice markPrice =
     (if entryPrice \<le> 0 then Some 0
      else if side = SideLong
        then map_option (\<lambda>q. q * 100) (fdiv (markPrice - entryPrice) entryPrice)
      else map_option (\<lambda>q. q * 100) (fdiv (entryPrice - markPrice) entryPrice))"

definition CalculateDistanceToPrice ::
  "Calculator \<Rightarrow> Side \<Rightarrow> float64 \<Rightarrow> float64 \<Rightarrow> float64 option" where
  "CalculateDistanceToPrice c side currentPrice targetPrice =
     (if currentPrice \<le> 0 then Some 0
      else if side = SideLong
        then map_option (\<lambda>q. q * 100) (fdiv (targetPrice - currentPrice) currentPrice)
      else map_option (\<lambda>q. q * 100) (fdiv (currentPrice - targetPrice) currentPrice))"

definition ValidateInputs ::
  "Calculator \<Rightarrow> Side \<Rightarrow> float64 \<Rightarrow> float64 \<Rightarrow> float64 \<Rightarrow> float64 \<Rightarrow> error option" where
  "ValidateInputs c side entryPrice stopLoss riskPercent accountEquity =
     (if entryPrice \<le> 0 then Some (EntryPriceNotPositive entryPrice)
      else if stopLoss \<le> 0 then Some (StopLossNotPositive stopLoss)
      else if riskPercent \<le> 0 \<or> riskPercent > 100
        then Some (RiskPercentOutOfRange riskPercent)
      else if accountEquity \<le> 0 then Some (AccountEquityNotPositive accountEquity)
      else case ValidateStopLoss c side entryPrice stopLoss of
             Some err \<Rightarrow> Some err
           | None \<Rightarrow> None)"

section \<open>Package \<open>riskratio\<close>: the fixed risk-reward strategy\<close>

record RiskRatioStrategy =
  calculator :: Calculator
  rrRatio :: float64

definition riskratio_New :: "float64 \<Rightarrow> RiskRatioStrategy" where
  "riskratio_New rrRatio' = \<lparr>calculator = calculator_New 125, rrRatio = rrRatio'\<rparr>"

definition Name :: "RiskRatioStrategy \<Rightarrow> string" where
  "Name s = ''risk-ratio''"

definition calculatorSideFromStrategy :: "Side \<Rightarrow> Side" where
  "calculatorSideFromStrategy side = (if side = SideLong then SideLong else SideShort)"

text \<open>
  \<open>CalculatePosition\<close> returns the pair \<open>(*PositionPlan, error)\<close>. The context
  argument is never read and is left out; \<open>now\<close> is what \<open>time.Now()\<close> returns.
  The outer option is \<open>None\<close> when a division by zero is reached (see \<open>fdiv\<close>).
\<close>

definition CalculatePosition ::
  "RiskRatioStrategy \<Rightarrow> Time \<Rightarrow> PositionParams
     \<Rightarrow> (PositionPlan option \<times> error option) option" where
  "CalculatePosition s now params =
     (let calcSide = calculatorSideFromStrategy (PositionParams.Side params)
      in case ValidateInputs (calculator s) calcSide (PositionParams.EntryPrice params)
                (PositionParams.StopLoss params) (PositionParams.RiskPercent params)
                (AccountBalance params) of
           Some err \<Rightarrow> Some (None, Some (ValidationFailed err))
         | None \<Rightarrow>
            (case CalculateSize (calculator s) (AccountBalance params)
                    (PositionParams.RiskPercent params) (PositionParams.EntryPrice params)
                    (PositionParams.StopLoss params) calcSide of
               None \<Rightarrow> None
             | Some size' \<Rightarrow>
                (case CalculateLeverage (calculator s) size' (PositionParams.EntryPrice params)
                        (AccountBalance params) (MaxLeverage params) of
                   None \<Rightarrow> None
                 | Some leverage \<Rightarrow>
                    (let tpPrice = CalculateRRTakeProfit (calculator s)
                           (PositionParams.EntryPrice params) (PositionParams.StopLoss params)
                           (rrRatio s) calcSide
                     in Some (Some \<lparr>
                          PositionPlan.Symbol = PositionParams.Symbol params,
                          Side = PositionParams.Side params,
                          Size = size',
                          EntryPrice = PositionParams.EntryPrice params,
                          Leverage = leverage,
                          StopLoss = Some \<lparr>
                            StopLossLevel.Price = PositionParams.StopLoss params,
                            Type = StopLossTypeFixed,
                            ActivationPrice = 0,
                            CallbackRate = 0\<rparr>,
                          TakeProfits = [\<lparr>
                            TakeProfitLevel.Price = tpPrice,
                            Percentage = 100,
                            Type = TakeProfitTypeLimit,
                            ActivationPrice = 0,
                            CallbackRate = 0\<rparr>],
                          RiskAmount = AccountBalance params * PositionParams.RiskPercent params / 100,
                          RiskPercent = PositionParams.RiskPercent params,
                          NotionalValue = size' * PositionParams.EntryPrice params,
                          StrategyName = Name s,
                          Timestamp = now\<rparr>, None)))))"

text \<open>The position argument of the callbacks is a pointer, possibly nil.\<close>

definition OnPositionOpened :: "RiskRatioStrategy \<Rightarrow> Position option \<Rightarrow> error option" where
  "OnPositionOpened s position = None"

definition OnPriceUpdate ::
  "RiskRatioStrategy \<Rightarrow> Position option \<Rightarrow> float64
     \<Rightarrow> StrategyAction option \<times> error option" where
  "OnPriceUpdate s position currentPrice =
     (Some \<lparr>StrategyAction.Type = ActionTypeNone, Reason = [], Orders = []\<rparr>, None)"

definition ShouldClose ::
  "RiskRatioStrategy \<Rightarrow> Position option \<Rightarrow> float64 \<Rightarrow> bool \<times> string" where
  "ShouldClose s position currentPrice = (False, [])"

section \<open>Auxiliary definitions for the statements\<close>

text \<open>
  \<open>spec_clamp x lo hi\<close> follows the specification's words ``clamp to \<open>[lo, hi]\<close>'';
  it is not taken from the source, and is compared with \<open>CalculateLeverage\<close> below.
\<close>

definition spec_clamp :: "int \<Rightarrow> int \<Rightarrow> int \<Rightarrow> int" where
  "spec_clamp x lo hi = max lo (min x hi)"

text \<open>
  The result of the \<open>ValidateInputs\<close> call that opens \<open>CalculatePosition\<close>
  (riskratio.go, line 49).
\<close>

abbreviation validated :: "RiskRatioStrategy \<Rightarrow> PositionParams \<Rightarrow> error option" where
  "validated s params \<equiv>
     ValidateInputs (calculator s) (calculatorSideFromStrategy (PositionParams.Side params))
       (PositionParams.EntryPrice params) (PositionParams.StopLoss params)
       (PositionParams.RiskPercent params) (AccountBalance params)"

text \<open>
  The plan literal of \<open>CalculatePosition\<close> (riskratio.go, lines 82--104) as a function
  of the size and the leverage computed before it.
\<close>

definition plan_of ::
  "RiskRatioStrategy \<Rightarrow> Time \<Rightarrow> PositionParams \<Rightarrow> float64 \<Rightarrow> int \<Rightarrow> PositionPlan" where
  "plan_of s now params size' leverage = \<lparr>
     PositionPlan.Symbol = PositionParams.Symbol params,
     Side = PositionParams.Side params,
     Size = size',
     EntryPrice = PositionParams.EntryPrice params,
     Leverage = leverage,
     StopLoss = Some \<lparr>
       StopLossLevel.Price = PositionParams.StopLoss params,
       Type = StopLossTypeFixed,
       ActivationPrice = 0,
       CallbackRate = 0\<rparr>,
     TakeProfits = [\<lparr>
       TakeProfitLevel.Price = CalculateRRTakeProfit (calculator s)
          (PositionParams.EntryPrice params) (PositionParams.StopLoss params)
          (rrRatio s) (calculatorSideFromStrategy (PositionParams.Side params)),
       Percentage = 100,
       Type = TakeProfitTypeLimit,
       ActivationPrice = 0,
       CallbackRate = 0\<rparr>],
     RiskAmount = AccountBalance params * PositionParams.RiskPercent params / 100,
     RiskPercent = PositionParams.RiskPercent params,
     NotionalValue = size' * PositionParams.EntryPrice params,
     StrategyName = ''risk-ratio'',
     Timestamp = now\<rparr>"

text \<open>Inputs of the repository's own tests and examples, with the leverage cap left open.\<close>

definition btc_long :: "float64 \<Rightarrow> int \<Rightarrow> PositionParams" where
  "btc_long stopLoss m = \<lparr>
     PositionParams.Symbol = ''BTC-USDT'', Side = SideLong, EntryPrice = 45000,
     StopLoss = stopLoss, AccountBalance = 1000, RiskPercent = 2, MaxLeverage = m,
     Params = Map.empty\<rparr>"

section \<open>Rounding\<close>

lemma rne_error: "\<bar>of_int (rne y) - y\<bar> \<le> 1 / 2"
  unfolding rne_def Let_def by (auto simp: abs_le_iff)

lemma rne_of_int: "rne (of_int n) = n"
  by (simp add: rne_def)

lemma rne_ge: "of_int n \<le> y \<Longrightarrow> n \<le> rne y"
proof -
  assume "of_int n \<le> y"
  then have "n \<le> \<lfloor>y\<rfloor>" by (simp add: le_floor_iff)
  then show ?thesis unfolding rne_def Let_def by auto
qed

lemma scaled_bounds:
  assumes "0 < x"
  defines "e \<equiv> \<lfloor>log 2 x\<rfloor> - 52"
  shows "2 ^ 52 \<le> x / 2 powr of_int e" and "x / 2 powr of_int e < 2 ^ 53"
proof -
  have "\<lfloor>log 2 x\<rfloor> = e + 52" by (simp add: e_def)
  then have b: "2 powr of_int (e + 52) \<le> x" "x < 2 powr (of_int (e + 52) + 1)"
    using floor_log_eq_powr_iff [of x 2 "e + 52"] assms(1) by auto
  have p: "0 < 2 powr (of_int e :: real)" by simp
  have "2 powr of_int (e + 52) = 2 powr of_int e * (2 ^ 52 :: real)"
    by (simp add: powr_add)
  with b(1) p show "2 ^ 52 \<le> x / 2 powr of_int e"
    by (simp add: le_divide_eq mult.commute)
  have "2 powr (of_int (e + 52) + 1) = 2 powr of_int e * (2 ^ 53 :: real)"
    by (simp add: powr_add)
  with b(2) p show "x / 2 powr of_int e < 2 ^ 53"
    by (simp add: divide_less_eq mult.commute)
qed

lemma round_f64_pos_eq:
  assumes "0 < x"
  shows "round_f64 x = of_int (rne (x / 2 powr of_int (\<lfloor>log 2 x\<rfloor> - 52))) * 2 powr of_int (\<lfloor>log 2 x\<rfloor> - 52)"
  using assms by (simp add: round_f64_def Let_def)

lemma round_f64_minus: "round_f64 (- x) = - round_f64 x"
  by (simp add: round_f64_def Let_def sgn_minus)

lemma round_f64_error_pos:
  assumes "0 < x"
  shows "\<bar>round_f64 x - x\<bar> \<le> x / 2 ^ 53"
proof -
  define e where "e = \<lfloor>log 2 x\<rfloor> - 52"
  define p where "p = 2 powr (of_int e :: real)"
  have p: "0 < p" by (simp add: p_def)
  have lo: "2 ^ 52 \<le> x / p" using scaled_bounds(1) [OF assms] by (simp add: e_def p_def)
  have "round_f64 x - x = (of_int (rne (x / p)) - x / p) * p"
    using p by (simp add: round_f64_pos_eq [OF assms] e_def p_def field_simps)
  then have "\<bar>round_f64 x - x\<bar> = \<bar>of_int (rne (x / p)) - x / p\<bar> * p"
    using p by (simp add: abs_mult)
  also have "\<dots> \<le> 1 / 2 * p"
    using rne_error [of "x / p"] p by (intro mult_right_mono) simp_all
  also have "\<dots> \<le> x / 2 ^ 53"
  proof -
    from lo p have "2 ^ 52 * p \<le> x" by (simp add: le_divide_eq)
    then show ?thesis by simp
  qed
  finally show ?thesis .
qed

lemma round_f64_error: "\<bar>round_f64 x - x\<bar> \<le> \<bar>x\<bar> / 2 ^ 53"
proof (cases "x = 0")
  case True
  then show ?thesis by (simp add: round_f64_def)
next
  case False
  show ?thesis
  proof (cases "0 < x")
    case True
    then show ?thesis using round_f64_error_pos [OF True] by simp
  next
    case False
    with \<open>x \<noteq> 0\<close> have "0 < - x" by simp
    from round_f64_error_pos [OF this] show ?thesis
      by (simp add: round_f64_minus abs_minus_commute)
  qed
qed

lemma round_f64_pos:
  assumes "0 < x"
  shows "0 < round_f64 x"
proof -
  have "\<bar>round_f64 x - x\<bar> \<le> x / 2 ^ 53" by (rule round_f64_error_pos [OF assms])
  moreover have "x / 2 ^ 53 < x" using assms by (simp add: divide_less_eq)
  ultimately show ?thesis by linarith
qed

lemma round_f64_eqI:
  assumes "0 < x" and "2 ^ 52 \<le> x / 2 powr of_int e" and "x / 2 powr of_int e < 2 ^ 53"
  shows "round_f64 x = of_int (rne (x / 2 powr of_int e)) * 2 powr of_int e"
proof -
  have p: "0 < 2 powr (of_int e :: real)" by simp
  have "2 powr of_int (e + 52) = 2 powr of_int e * (2 ^ 52 :: real)"
    by (simp add: powr_add)
  with assms(2) p have lo: "2 powr of_int (e + 52) \<le> x"
    by (simp add: le_divide_eq mult.commute)
  have "2 powr (of_int (e + 52) + 1) = 2 powr of_int e * (2 ^ 53 :: real)"
    by (simp add: powr_add)
  with assms(3) p have hi: "x < 2 powr (of_int (e + 52) + 1)"
    by (simp add: divide_less_eq mult.commute)
  from lo hi have "\<lfloor>log 2 x\<rfloor> = e + 52"
    using floor_log_eq_powr_iff [of x 2 "e + 52"] assms(1) by simp
  then show ?thesis by (simp add: round_f64_pos_eq [OF assms(1)])
qed

lemma round_f64_down:
  assumes "0 < x" and "2 ^ 52 \<le> x * 2 ^ n" and "x * 2 ^ n < 2 ^ 53"
  shows "round_f64 x = of_int (rne (x * 2 ^ n)) / 2 ^ n"
proof -
  have e: "2 powr (- real n) = 1 / (2 ^ n :: real)"
    by (simp add: powr_minus powr_realpow inverse_eq_divide)
  from round_f64_eqI [of x "- int n"] assms show ?thesis
    by (simp add: e)
qed

lemma round_f64_up:
  assumes "0 < x" and "2 ^ 52 \<le> x / 2 ^ n" and "x / 2 ^ n < 2 ^ 53"
  shows "round_f64 x = of_int (rne (x / 2 ^ n)) * 2 ^ n"
proof -
  have e: "2 powr real n = (2 ^ n :: real)"
    by (simp add: powr_realpow)
  from round_f64_eqI [of x "int n"] assms show ?thesis
    by (simp add: e)
qed

lemma round_f64_of_int_pos:
  assumes "0 < m" and "m < 2 ^ 53"
  shows "round_f64 (of_int m) = of_int m"
proof -
  define x :: real where "x = of_int m"
  have x: "0 < x" "x < 2 ^ 53" using assms by (simp_all add: x_def)
  define e where "e = \<lfloor>log 2 x\<rfloor> - 52"
  have "log 2 x < 53" using x by (simp add: log_less_iff)
  then have "\<lfloor>log 2 x\<rfloor> < 53" by (simp add: floor_less_iff)
  then have e: "e \<le> 0" by (simp add: e_def)
  define k where "k = nat (- e)"
  have pw: "2 powr of_int e = 1 / (2 ^ k :: real)"
    using e by (simp add: k_def powr_int)
  have "x / 2 powr of_int e = of_int (m * 2 ^ k)" by (simp add: pw x_def)
  then have "rne (x / 2 powr of_int e) = m * 2 ^ k" by (simp only: rne_of_int)
  then have "round_f64 x = of_int (m * 2 ^ k) * (1 / 2 ^ k)"
    using round_f64_pos_eq [OF x(1)] by (simp only: e_def [symmetric] pw)
  then show ?thesis by (simp add: x_def)
qed

lemma round_f64_of_int:
  assumes "\<bar>m\<bar> < 2 ^ 53"
  shows "round_f64 (of_int m) = of_int m"
proof -
  consider "m = 0" | "0 < m" | "m < 0" by linarith
  then show ?thesis
  proof cases
    case 1
    then show ?thesis by (simp add: round_f64_def)
  next
    case 2
    then show ?thesis using assms by (intro round_f64_of_int_pos) simp_all
  next
    case 3
    then have "round_f64 (of_int (- m)) = of_int (- m)"
      using assms by (intro round_f64_of_int_pos) simp_all
    then show ?thesis by (simp add: round_f64_minus)
  qed
qed

lemma round_f64_numeral:
  "(numeral k :: int) < 2 ^ 53 \<Longrightarrow> round_f64 (numeral k) = numeral k"
  using round_f64_of_int [of "numeral k"] by simp

lemma round_f64_0: "round_f64 0 = 0"
  by (simp add: round_f64_def)

lemma round_f64_1: "round_f64 1 = 1"
  using round_f64_of_int [of 1] by simp

lemma round_f64_rel:
  assumes "\<bar>x - X\<bar> \<le> \<epsilon> * X" and "0 < X" and "0 \<le> \<epsilon>"
  shows "\<bar>round_f64 x - X\<bar> \<le> (\<epsilon> + (1 + \<epsilon>) / 2 ^ 53) * X"
proof -
  have "\<bar>x\<bar> \<le> X + \<epsilon> * X" using assms(1,2) by linarith
  then have "\<bar>x\<bar> / 2 ^ 53 \<le> (1 + \<epsilon>) * X / 2 ^ 53"
    by (simp add: divide_right_mono algebra_simps)
  with round_f64_error [of x] have "\<bar>round_f64 x - x\<bar> \<le> (1 + \<epsilon>) * X / 2 ^ 53"
    by linarith
  with assms(1) have "\<bar>round_f64 x - X\<bar> \<le> \<epsilon> * X + (1 + \<epsilon>) * X / 2 ^ 53"
    by linarith
  then show ?thesis by (simp add: algebra_simps)
qed

lemma quotient_rel:
  fixes a A d D \<alpha> \<beta> :: real
  assumes a: "\<bar>a - A\<bar> \<le> \<alpha> * A" and d: "\<bar>d - D\<bar> \<le> \<beta> * D"
    and "0 < A" and "0 < D" and "0 \<le> \<alpha>" and "0 \<le> \<beta>" and "\<beta> < 1"
  shows "\<bar>a / d - A / D\<bar> \<le> (\<alpha> + \<beta>) / (1 - \<beta>) * (A / D)"
proof -
  have dlo: "(1 - \<beta>) * D \<le> d" using d by (simp add: algebra_simps abs_le_iff)
  have pos: "0 < (1 - \<beta>) * D" using assms by simp
  with dlo have dpos: "0 < d" by linarith
  have "a / d - A / D = ((a - A) * D - A * (d - D)) / (d * D)"
    using dpos \<open>0 < D\<close> by (simp add: field_simps)
  then have "\<bar>a / d - A / D\<bar> = \<bar>(a - A) * D - A * (d - D)\<bar> / (d * D)"
    using dpos \<open>0 < D\<close> by (simp add: abs_mult)
  also have "\<bar>(a - A) * D - A * (d - D)\<bar> \<le> \<bar>a - A\<bar> * D + A * \<bar>d - D\<bar>"
  proof -
    have "\<bar>(a - A) * D - A * (d - D)\<bar> \<le> \<bar>(a - A) * D\<bar> + \<bar>A * (d - D)\<bar>"
      by (rule abs_triangle_ineq4)
    then show ?thesis using \<open>0 < A\<close> \<open>0 < D\<close> by (simp add: abs_mult)
  qed
  also have "\<dots> \<le> \<alpha> * A * D + A * (\<beta> * D)"
    using a d \<open>0 < A\<close> \<open>0 < D\<close>
    by (intro add_mono mult_right_mono mult_left_mono) simp_all
  also have "\<dots> = (\<alpha> + \<beta>) * (A * D)" by (simp add: algebra_simps)
  finally have "\<bar>a / d - A / D\<bar> \<le> (\<alpha> + \<beta>) * (A * D) / (d * D)"
    using dpos \<open>0 < D\<close> by (simp add: divide_right_mono)
  also have "(\<alpha> + \<beta>) * (A * D) / (d * D) = (\<alpha> + \<beta>) * A / d"
    using \<open>0 < D\<close> by simp
  also have "\<dots> \<le> (\<alpha> + \<beta>) * A / ((1 - \<beta>) * D)"
    using dlo pos assms by (intro divide_left_mono mult_pos_pos) (simp_all add: dpos)
  also have "\<dots> = (\<alpha> + \<beta>) / (1 - \<beta>) * (A / D)" by simp
  finally show ?thesis .
qed

lemma size_rel_error:
  assumes "0 < balance" and "0 < riskPercent" and "0 < d"
  shows "\<bar>round_f64 (round_f64 (balance * round_f64 (riskPercent / 100)) / round_f64 d)
           - balance * riskPercent / 100 / d\<bar>
         \<le> balance * riskPercent / 100 / d / 2 ^ 50"
proof -
  define u :: real where "u = 1 / 2 ^ 53"
  define B where "B = balance * (riskPercent / 100)"
  have B: "0 < B" using assms by (simp add: B_def)
  have u: "0 \<le> u" "u < 1" by (simp_all add: u_def)
  have r: "\<bar>round_f64 (riskPercent / 100) - riskPercent / 100\<bar> \<le> riskPercent / 100 / 2 ^ 53"
    using round_f64_error [of "riskPercent / 100"] assms by simp
  have "balance * round_f64 (riskPercent / 100) - B
          = balance * (round_f64 (riskPercent / 100) - riskPercent / 100)"
    by (simp add: B_def algebra_simps)
  then have "\<bar>balance * round_f64 (riskPercent / 100) - B\<bar>
               = balance * \<bar>round_f64 (riskPercent / 100) - riskPercent / 100\<bar>"
    using assms(1) by (simp add: abs_mult)
  also have "\<dots> \<le> balance * (riskPercent / 100 / 2 ^ 53)"
    using r assms(1) by (intro mult_left_mono) simp_all
  also have "\<dots> = u * B" by (simp add: u_def B_def)
  finally have s1: "\<bar>balance * round_f64 (riskPercent / 100) - B\<bar> \<le> u * B" .
  define e2 where "e2 = u + (1 + u) / 2 ^ 53"
  have s2: "\<bar>round_f64 (balance * round_f64 (riskPercent / 100)) - B\<bar> \<le> e2 * B"
    unfolding e2_def by (rule round_f64_rel [OF s1 B u(1)])
  have e2: "0 \<le> e2" by (simp add: e2_def u_def)
  have sd: "\<bar>round_f64 d - d\<bar> \<le> u * d"
    using round_f64_error [of d] assms(3) by (simp add: u_def)
  define e3 where "e3 = (e2 + u) / (1 - u)"
  have s3: "\<bar>round_f64 (balance * round_f64 (riskPercent / 100)) / round_f64 d - B / d\<bar>
              \<le> e3 * (B / d)"
    unfolding e3_def by (rule quotient_rel [OF s2 sd B assms(3) e2 u])
  have e3: "0 \<le> e3" by (simp add: e3_def e2_def u_def)
  have Q: "0 < B / d" using B assms(3) by simp
  have s4: "\<bar>round_f64 (round_f64 (balance * round_f64 (riskPercent / 100)) / round_f64 d) - B / d\<bar>
              \<le> (e3 + (1 + e3) / 2 ^ 53) * (B / d)"
    by (rule round_f64_rel [OF s3 Q e3])
  have "e3 + (1 + e3) / 2 ^ 53 \<le> 1 / 2 ^ 50"
    by (simp add: e3_def e2_def u_def)
  then have "(e3 + (1 + e3) / 2 ^ 53) * (B / d) \<le> 1 / 2 ^ 50 * (B / d)"
    using Q by (intro mult_right_mono) simp_all
  with s4 show ?thesis by (simp add: B_def)
qed

section \<open>Shared lemmas\<close>

lemma SideLong_neq_SideShort: "SideLong \<noteq> SideShort"
  by (simp add: SideLong_def SideShort_def)

lemma calculatorSideFromStrategy_cases:
  "calculatorSideFromStrategy side = SideLong \<or> calculatorSideFromStrategy side = SideShort"
  by (simp add: calculatorSideFromStrategy_def)

lemma ValidateInputs_None_iff:
  "ValidateInputs c side entryPrice stopLoss riskPercent accountEquity = None \<longleftrightarrow>
     0 < entryPrice \<and> 0 < stopLoss \<and> 0 < riskPercent \<and> riskPercent \<le> 100 \<and>
     0 < accountEquity \<and> \<not> (side = SideLong \<and> entryPrice \<le> stopLoss) \<and>
     \<not> (side = SideShort \<and> stopLoss \<le> entryPrice)"
  by (auto simp add: ValidateInputs_def ValidateStopLoss_def SideLong_neq_SideShort
      split: option.splits if_splits)

lemma CalculatePosition_invalid:
  assumes "validated s params = Some err"
  shows "CalculatePosition s now params = Some (None, Some (ValidationFailed err))"
  using assms by (simp add: CalculatePosition_def Let_def)

text \<open>The size as a closed expression, for a positive balance, risk and price risk.\<close>

lemma CalculateSize_pos:
  assumes "0 < balance" and "0 < riskPercent"
    and "0 < (if side = SideLong then entry - stopLoss else stopLoss - entry)"
  shows "CalculateSize c balance riskPercent entry stopLoss side
           = Some (round_f64 (round_f64 (balance * round_f64 (riskPercent / 100))
                     / round_f64 (if side = SideLong then entry - stopLoss
                                  else stopLoss - entry)))"
    and "0 < round_f64 (round_f64 (balance * round_f64 (riskPercent / 100))
                     / round_f64 (if side = SideLong then entry - stopLoss
                                  else stopLoss - entry))"
proof -
  define d where "d = (if side = SideLong then entry - stopLoss else stopLoss - entry)"
  have d: "0 < round_f64 d" using assms(3) by (intro round_f64_pos) (simp add: d_def)
  have "0 < round_f64 (riskPercent / 100)" using assms(2) by (intro round_f64_pos) simp
  with assms(1) have "0 < balance * round_f64 (riskPercent / 100)" by simp
  then have b: "0 < round_f64 (balance * round_f64 (riskPercent / 100))"
    by (rule round_f64_pos)
  from b d have "0 < round_f64 (balance * round_f64 (riskPercent / 100)) / round_f64 d"
    by simp
  then have "0 < round_f64 (round_f64 (balance * round_f64 (riskPercent / 100)) / round_f64 d)"
    by (rule round_f64_pos)
  then show "0 < round_f64 (round_f64 (balance * round_f64 (riskPercent / 100))
                     / round_f64 (if side = SideLong then entry - stopLoss
                                  else stopLoss - entry))"
    by (simp only: d_def)
  have "CalculateSize c balance riskPercent entry stopLoss side
          = map_option round_f64
              (fdiv (round_f64 (balance * round_f64 (riskPercent / 100))) (round_f64 d))"
    by (simp add: CalculateSize_def Let_def d_def)
  also have "\<dots> = Some (round_f64 (round_f64 (balance * round_f64 (riskPercent / 100))
                                / round_f64 d))"
    using d by (simp add: fdiv_def)
  finally show "CalculateSize c balance riskPercent entry stopLoss side
           = Some (round_f64 (round_f64 (balance * round_f64 (riskPercent / 100))
                     / round_f64 (if side = SideLong then entry - stopLoss
                                  else stopLoss - entry)))"
    by (simp only: d_def)
qed

lemma validated_price_risk:
  assumes "ValidateInputs c side entry stopLoss riskPercent balance = None"
    and "side = SideLong \<or> side = SideShort"
  shows "0 < (if side = SideLong then entry - stopLoss else stopLoss - entry)"
  using assms by (auto simp add: ValidateInputs_None_iff SideLong_neq_SideShort [symmetric])

lemma CalculateSize_valid:
  assumes "ValidateInputs c side entry stopLoss riskPercent balance = None"
    and "side = SideLong \<or> side = SideShort"
  shows "\<exists>sz. CalculateSize c balance riskPercent entry stopLoss side = Some sz \<and> 0 < sz"
proof -
  from assms(1) have "0 < balance" and "0 < riskPercent"
    by (simp_all add: ValidateInputs_None_iff)
  from CalculateSize_pos [OF this validated_price_risk [OF assms]] show ?thesis by blast
qed

lemma CalculateLeverage_defined:
  assumes "balance \<noteq> 0"
  shows "CalculateLeverage c sz price balance m
           = (if m < \<lceil>round_f64 (round_f64 (sz * price) / balance)\<rceil> then Some m
              else if \<lceil>round_f64 (round_f64 (sz * price) / balance)\<rceil> < 1 then Some 1
              else Some \<lceil>round_f64 (round_f64 (sz * price) / balance)\<rceil>)"
proof -
  have "map_option round_f64 (fdiv (round_f64 (sz * price)) balance)
          = Some (round_f64 (round_f64 (sz * price) / balance))"
    using assms by (simp add: fdiv_def)
  then show ?thesis
    by (simp only: CalculateLeverage_def int_Ceil_def Let_def option.case)
qed

lemma required_leverage_pos:
  assumes "0 < sz" and "0 < entry" and "0 < balance"
  shows "1 \<le> \<lceil>round_f64 (round_f64 (sz * entry) / balance)\<rceil>"
proof -
  have "0 < round_f64 (sz * entry)" using assms by (intro round_f64_pos) simp
  with assms(3) have "0 < round_f64 (sz * entry) / balance" by simp
  then have "0 < round_f64 (round_f64 (sz * entry) / balance)" by (rule round_f64_pos)
  then show ?thesis by linarith
qed

lemma CalculateLeverage_valid:
  assumes "0 < sz" and "0 < entry" and "0 < balance"
  shows "CalculateLeverage c sz entry balance m
           = Some (min \<lceil>round_f64 (round_f64 (sz * entry) / balance)\<rceil> m)"
proof -
  from assms(3) have "balance \<noteq> 0" by simp
  from CalculateLeverage_defined [OF this] required_leverage_pos [OF assms]
  show ?thesis by (simp only: min_def) auto
qed

lemma CalculatePosition_valid:
  assumes "validated s params = None"
  shows "\<exists>sz. CalculateSize (calculator s) (AccountBalance params)
                (PositionParams.RiskPercent params) (PositionParams.EntryPrice params)
                (PositionParams.StopLoss params)
                (calculatorSideFromStrategy (PositionParams.Side params)) = Some sz \<and>
              0 < sz \<and>
              CalculateLeverage (calculator s) sz (PositionParams.EntryPrice params)
                (AccountBalance params) (MaxLeverage params)
                = Some (min \<lceil>round_f64 (round_f64 (sz * PositionParams.EntryPrice params)
                                  / AccountBalance params)\<rceil> (MaxLeverage params)) \<and>
              1 \<le> \<lceil>round_f64 (round_f64 (sz * PositionParams.EntryPrice params)
                                  / AccountBalance params)\<rceil> \<and>
              CalculatePosition s now params
                = Some (Some (plan_of s now params sz
                    (min \<lceil>round_f64 (round_f64 (sz * PositionParams.EntryPrice params)
                                  / AccountBalance params)\<rceil> (MaxLeverage params))), None)"
proof -
  from CalculateSize_valid [OF assms calculatorSideFromStrategy_cases]
  obtain sz where sz: "CalculateSize (calculator s) (AccountBalance params)
                (PositionParams.RiskPercent params) (PositionParams.EntryPrice params)
                (PositionParams.StopLoss params)
                (calculatorSideFromStrategy (PositionParams.Side params)) = Some sz"
    and pos: "0 < sz" by blast
  from assms have e: "0 < PositionParams.EntryPrice params" and b: "0 < AccountBalance params"
    by (simp_all add: ValidateInputs_None_iff)
  note lev = CalculateLeverage_valid [OF pos e b, of "calculator s" "MaxLeverage params"]
  have "CalculatePosition s now params
          = Some (Some (plan_of s now params sz
                    (min \<lceil>round_f64 (round_f64 (sz * PositionParams.EntryPrice params)
                                  / AccountBalance params)\<rceil> (MaxLeverage params))), None)"
    using assms sz lev
    by (simp add: CalculatePosition_def Let_def plan_of_def Name_def)
  with sz pos lev required_leverage_pos [OF pos e b] show ?thesis by blast
qed

text \<open>The strategy's calculator, and with it the ceiling it was built with, is never read.\<close>

lemma CalculatePosition_ignores_ceiling:
  "CalculatePosition (s\<lparr>calculator := calculator_New k\<rparr>) now params
     = CalculatePosition s now params"
proof -
  have v: "ValidateInputs (calculator_New k) = ValidateInputs (calculator s)"
    by (intro ext) (simp add: ValidateInputs_def ValidateStopLoss_def)
  have z: "CalculateSize (calculator_New k) = CalculateSize (calculator s)"
    by (intro ext) (simp add: CalculateSize_def)
  have l: "CalculateLeverage (calculator_New k) = CalculateLeverage (calculator s)"
    by (intro ext) (simp add: CalculateLeverage_def)
  have t: "CalculateRRTakeProfit (calculator_New k) = CalculateRRTakeProfit (calculator s)"
    by (intro ext) (simp add: CalculateRRTakeProfit_def)
  have c: "calculator (s\<lparr>calculator := calculator_New k\<rparr>) = calculator_New k"
    and r: "rrRatio (s\<lparr>calculator := calculator_New k\<rparr>) = rrRatio s"
    and n: "Name (s\<lparr>calculator := calculator_New k\<rparr>) = Name s"
    by (simp_all add: Name_def)
  show ?thesis
    unfolding CalculatePosition_def c r n v z l t by (rule refl)
qed

text \<open>Values of \<open>round_f64\<close> met on the test inputs.\<close>

lemma round_f64_2_100: "round_f64 (2 / 100) = 5764607523034235 / 2 ^ 58"
  by (subst round_f64_down [where n = 58]) (simp_all add: rne_def)

lemma round_f64_4_100: "round_f64 (4 / 100) = 5764607523034235 / 2 ^ 57"
  by (subst round_f64_down [where n = 57]) (simp_all add: rne_def)

lemma round_f64_1_10: "round_f64 (1 / 10) = 7205759403792794 / 2 ^ 56"
  by (subst round_f64_down [where n = 56]) (simp_all add: rne_def)

lemma round_f64_1_100: "round_f64 (1 / 100) = 5764607523034235 / 2 ^ 59"
  by (subst round_f64_down [where n = 59]) (simp_all add: rne_def)

lemma round_f64_9_5: "round_f64 (9 / 5) = 8106479329266893 / 2 ^ 52"
  by (subst round_f64_down [where n = 52]) (simp_all add: rne_def)

lemma risk_amount_20: "round_f64 (1000 * round_f64 (2 / 100)) = 20"
  unfolding round_f64_2_100
  by (subst round_f64_down [where n = 48]) (simp_all add: rne_def)

lemma notional_1800: "round_f64 (round_f64 (4 / 100) * 45000) = 1800"
  unfolding round_f64_4_100
  by (subst round_f64_down [where n = 42]) (simp_all add: rne_def)

lemma notional_3: "round_f64 (round_f64 (1 / 10) * 30) = 3"
  unfolding round_f64_1_10
  by (subst round_f64_down [where n = 51]) (simp_all add: rne_def)

lemma notional_1: "round_f64 (round_f64 (1 / 100) * 100) = 1"
  unfolding round_f64_1_100
  by (subst round_f64_down [where n = 52]) (simp_all add: rne_def)

lemma required_2: "\<lceil>round_f64 (1800 / 1000)\<rceil> = 2"
proof -
  have "round_f64 (1800 / 1000) = round_f64 (9 / 5)" by simp
  then show ?thesis by (simp add: round_f64_9_5 ceiling_eq_iff)
qed

text \<open>Running the calculator and \<open>CalculatePosition\<close> on the test inputs.\<close>

lemma size_btc_long_44500:
  "CalculateSize c 1000 2 45000 44500 SideLong = Some (round_f64 (4 / 100))"
proof -
  have "CalculateSize c 1000 2 45000 44500 SideLong
          = Some (round_f64 (round_f64 (1000 * round_f64 (2 / 100))
                     / round_f64 (if SideLong = SideLong then 45000 - 44500
                                  else 44500 - 45000)))"
    by (rule CalculateSize_pos(1)) simp_all
  then show ?thesis by (simp add: risk_amount_20 [simplified] round_f64_numeral)
qed

lemma size_btc_long_44995:
  "CalculateSize c 1000 2 45000 44995 SideLong = Some 4"
proof -
  have "CalculateSize c 1000 2 45000 44995 SideLong
          = Some (round_f64 (round_f64 (1000 * round_f64 (2 / 100))
                     / round_f64 (if SideLong = SideLong then 45000 - 44995
                                  else 44995 - 45000)))"
    by (rule CalculateSize_pos(1)) simp_all
  then show ?thesis by (simp add: risk_amount_20 [simplified] round_f64_numeral)
qed

lemma leverage_btc_long_44500:
  "CalculateLeverage c (round_f64 (4 / 100)) 45000 1000 m = Some (min 2 m)"
proof -
  have "0 < round_f64 (4 / 100)" by (intro round_f64_pos) simp
  from CalculateLeverage_valid [OF this, of 45000 1000 c m]
  show ?thesis by (simp only: notional_1800 required_2)
qed

text \<open>
  An input on which the rounding decides the leverage: balance 1000, risk 7 percent,
  entry 50000, stop loss 49500. The size is the \<open>float64\<close> nearest to 0.14, its
  product with 50000 rounds to the \<open>float64\<close> just above 7000, and the required
  leverage is 8, where the exact quotient \<open>0.14 * 50000 / 1000\<close> is 7.
\<close>

lemma size_risk_7:
  "CalculateSize c 1000 7 50000 49500 SideLong = Some (round_f64 (14 / 100))"
proof -
  have a: "round_f64 (7 / 100) = 5044031582654956 / 2 ^ 56"
    by (subst round_f64_down [where n = 56]) (simp_all add: rne_def)
  have b: "round_f64 (1000 * round_f64 (7 / 100)) = 70"
    unfolding a by (subst round_f64_down [where n = 46]) (simp_all add: rne_def)
  have "CalculateSize c 1000 7 50000 49500 SideLong
          = Some (round_f64 (round_f64 (1000 * round_f64 (7 / 100))
                     / round_f64 (if SideLong = SideLong then 50000 - 49500
                                  else 49500 - 50000)))"
    by (rule CalculateSize_pos(1)) simp_all
  then show ?thesis by (simp add: b [simplified] round_f64_numeral)
qed

lemma leverage_risk_7:
  "CalculateLeverage c (round_f64 (14 / 100)) 50000 1000 125 = Some 8"
proof -
  have a: "round_f64 (14 / 100) = 5044031582654956 / 2 ^ 55"
    by (subst round_f64_down [where n = 55]) (simp_all add: rne_def)
  have n: "round_f64 (round_f64 (14 / 100) * 50000) = 7696581394432001 / 2 ^ 40"
    unfolding a by (subst round_f64_down [where n = 40]) (simp_all add: rne_def)
  have q: "round_f64 (7696581394432001 / 2 ^ 40 / 1000) = 7881299347898369 / 2 ^ 50"
    by (subst round_f64_down [where n = 50]) (simp_all add: rne_def)
  have r: "\<lceil>round_f64 (round_f64 (round_f64 (14 / 100) * 50000) / 1000)\<rceil> = 8"
    unfolding n q by (simp add: ceiling_eq_iff)
  have "0 < round_f64 (14 / 100)" by (intro round_f64_pos) simp
  from CalculateLeverage_valid [OF this, of 50000 1000 c 125]
  show ?thesis by (simp only: r) simp
qed

lemma validated_btc_long:
  "validated (riskratio_New rr) (btc_long 44500 m) = None"
  "validated (riskratio_New rr) (btc_long 44995 m) = None"
  "validated (riskratio_New rr) (btc_long 46000 m)
     = Some (LongStopLossNotBelowEntry 46000 45000)"
  by (simp_all add: btc_long_def calculatorSideFromStrategy_def ValidateInputs_def
      ValidateStopLoss_def SideLong_def SideShort_def)

lemma run_btc_long_44500:
  "CalculatePosition (riskratio_New 2) now (btc_long 44500 m)
   = Some (Some \<lparr>PositionPlan.Symbol = ''BTC-USDT'', Side = SideLong,
        Size = round_f64 (4 / 100), EntryPrice = 45000, Leverage = min 2 m,
        StopLoss = Some \<lparr>StopLossLevel.Price = 44500, Type = StopLossTypeFixed,
          ActivationPrice = 0, CallbackRate = 0\<rparr>,
        TakeProfits = [\<lparr>TakeProfitLevel.Price = 46000, Percentage = 100,
          Type = TakeProfitTypeLimit, ActivationPrice = 0, CallbackRate = 0\<rparr>],
        RiskAmount = 20, RiskPercent = 2, NotionalValue = round_f64 (4 / 100) * 45000,
        StrategyName = ''risk-ratio'', Timestamp = now\<rparr>, None)"
proof -
  from CalculatePosition_valid [OF validated_btc_long(1), of 2 m now]
  obtain sz where
    sz: "CalculateSize (calculator (riskratio_New 2)) (AccountBalance (btc_long 44500 m))
           (PositionParams.RiskPercent (btc_long 44500 m))
           (PositionParams.EntryPrice (btc_long 44500 m))
           (PositionParams.StopLoss (btc_long 44500 m))
           (calculatorSideFromStrategy (PositionParams.Side (btc_long 44500 m))) = Some sz"
    and cp: "CalculatePosition (riskratio_New 2) now (btc_long 44500 m)
       = Some (Some (plan_of (riskratio_New 2) now (btc_long 44500 m) sz
           (min \<lceil>round_f64 (round_f64 (sz * PositionParams.EntryPrice (btc_long 44500 m))
                         / AccountBalance (btc_long 44500 m))\<rceil>
              (MaxLeverage (btc_long 44500 m)))), None)"
    by blast
  from sz have s: "sz = round_f64 (4 / 100)"
    by (simp add: btc_long_def calculatorSideFromStrategy_def size_btc_long_44500)
  have l: "\<lceil>round_f64 (round_f64 (round_f64 (4 / 100) * 45000) / 1000)\<rceil> = 2"
    by (simp only: notional_1800 required_2)
  show ?thesis
    unfolding cp s
    by (simp add: plan_of_def btc_long_def l [simplified] CalculateRRTakeProfit_def
        calculatorSideFromStrategy_def riskratio_New_def)
qed

lemma run_btc_long_44995:
  "CalculatePosition (riskratio_New 2) now (btc_long 44995 m)
   = Some (Some \<lparr>PositionPlan.Symbol = ''BTC-USDT'', Side = SideLong, Size = 4,
        EntryPrice = 45000, Leverage = min 180 m,
        StopLoss = Some \<lparr>StopLossLevel.Price = 44995, Type = StopLossTypeFixed,
          ActivationPrice = 0, CallbackRate = 0\<rparr>,
        TakeProfits = [\<lparr>TakeProfitLevel.Price = 45010, Percentage = 100,
          Type = TakeProfitTypeLimit, ActivationPrice = 0, CallbackRate = 0\<rparr>],
        RiskAmount = 20, RiskPercent = 2, NotionalValue = 180000,
        StrategyName = ''risk-ratio'', Timestamp = now\<rparr>, None)"
proof -
  from CalculatePosition_valid [OF validated_btc_long(2), of 2 m now]
  obtain sz where
    sz: "CalculateSize (calculator (riskratio_New 2)) (AccountBalance (btc_long 44995 m))
           (PositionParams.RiskPercent (btc_long 44995 m))
           (PositionParams.EntryPrice (btc_long 44995 m))
           (PositionParams.StopLoss (btc_long 44995 m))
           (calculatorSideFromStrategy (PositionParams.Side (btc_long 44995 m))) = Some sz"
    and cp: "CalculatePosition (riskratio_New 2) now (btc_long 44995 m)
       = Some (Some (plan_of (riskratio_New 2) now (btc_long 44995 m) sz
           (min \<lceil>round_f64 (round_f64 (sz * PositionParams.EntryPrice (btc_long 44995 m))
                         / AccountBalance (btc_long 44995 m))\<rceil>
              (MaxLeverage (btc_long 44995 m)))), None)"
    by blast
  from sz have s: "sz = 4"
    by (simp add: btc_long_def calculatorSideFromStrategy_def size_btc_long_44995)
  show ?thesis
    unfolding cp s
    by (simp add: plan_of_def btc_long_def round_f64_numeral CalculateRRTakeProfit_def
        calculatorSideFromStrategy_def riskratio_New_def)
qed

section \<open>Calculator\<close>

text \<open>
  Claim C1. For every input that passes \<open>ValidateInputs\<close>, \<open>CalculateSize\<close> returns
  \<open>balance * riskPercent / 100\<close> divided by \<open>entry - stopLoss\<close> for a Long position
  and by \<open>stopLoss - entry\<close> for a Short one. The division is by a non-zero price
  risk, so a size is returned; it is the \<open>float64\<close> value of
  \<open>balance * (riskPercent / 100) / priceRisk\<close>, and it equals the exact quotient of
  the claim up to the rounding of \<open>float64\<close>: the relative error is at most \<open>2^-50\<close>.
\<close>

theorem CalculateSize_formula:
  assumes "ValidateInputs c side entry stopLoss riskPercent balance = None"
  shows "(side = SideLong \<longrightarrow>
            (\<exists>sz. CalculateSize c balance riskPercent entry stopLoss side = Some sz \<and>
                  sz = round_f64 (round_f64 (balance * round_f64 (riskPercent / 100))
                         / round_f64 (entry - stopLoss)) \<and>
                  \<bar>sz - balance * riskPercent / 100 / (entry - stopLoss)\<bar>
                    \<le> balance * riskPercent / 100 / (entry - stopLoss) / 2 ^ 50)) \<and>
         (side = SideShort \<longrightarrow>
            (\<exists>sz. CalculateSize c balance riskPercent entry stopLoss side = Some sz \<and>
                  sz = round_f64 (round_f64 (balance * round_f64 (riskPercent / 100))
                         / round_f64 (stopLoss - entry)) \<and>
                  \<bar>sz - balance * riskPercent / 100 / (stopLoss - entry)\<bar>
                    \<le> balance * riskPercent / 100 / (stopLoss - entry) / 2 ^ 50))"
proof (intro conjI impI)
  from assms have b: "0 < balance" and r: "0 < riskPercent"
    by (simp_all add: ValidateInputs_None_iff)
  {
    assume l: "side = SideLong"
    with assms have d: "0 < entry - stopLoss" by (simp add: ValidateInputs_None_iff)
    from l d have d': "0 < (if side = SideLong then entry - stopLoss else stopLoss - entry)"
      by simp
    from CalculateSize_pos(1) [OF b r d', of c] l size_rel_error [OF b r d]
    show "\<exists>sz. CalculateSize c balance riskPercent entry stopLoss side = Some sz \<and>
                  sz = round_f64 (round_f64 (balance * round_f64 (riskPercent / 100))
                         / round_f64 (entry - stopLoss)) \<and>
                  \<bar>sz - balance * riskPercent / 100 / (entry - stopLoss)\<bar>
                    \<le> balance * riskPercent / 100 / (entry - stopLoss) / 2 ^ 50"
      by simp
  }
  {
    assume s: "side = SideShort"
    with assms have d: "0 < stopLoss - entry" by (simp add: ValidateInputs_None_iff)
    from s have n: "side \<noteq> SideLong" by (simp add: SideLong_neq_SideShort [symmetric])
    from n d have d': "0 < (if side = SideLong then entry - stopLoss else stopLoss - entry)"
      by simp
    from CalculateSize_pos(1) [OF b r d', of c] n size_rel_error [OF b r d]
    show "\<exists>sz. CalculateSize c balance riskPercent entry stopLoss side = Some sz \<and>
                  sz = round_f64 (round_f64 (balance * round_f64 (riskPercent / 100))
                         / round_f64 (stopLoss - entry)) \<and>
                  \<bar>sz - balance * riskPercent / 100 / (stopLoss - entry)\<bar>
                    \<le> balance * riskPercent / 100 / (stopLoss - entry) / 2 ^ 50"
      by simp
  }
qed

text \<open>
  The example of the claim: balance 1000, risk 2 percent, entry 45000, stop loss 44500,
  Long, gives the size 0.04, that is, the \<open>float64\<close> nearest to \<open>4 / 100\<close>.
\<close>

theorem CalculateSize_formula_witness:
  "ValidateInputs (calculator_New 125) SideLong 45000 44500 2 1000 = None \<and>
   CalculateSize (calculator_New 125) 1000 2 45000 44500 SideLong
     = Some (round_f64 (4 / 100)) \<and>
   \<bar>round_f64 (4 / 100) - 4 / 100\<bar> \<le> 4 / 100 / 2 ^ 50"
proof -
  have v: "ValidateInputs (calculator_New 125) SideLong 45000 44500 2 1000 = None"
    by (simp add: ValidateInputs_None_iff SideLong_neq_SideShort)
  from CalculateSize_formula [OF v]
  obtain sz where c: "CalculateSize (calculator_New 125) 1000 2 45000 44500 SideLong = Some sz"
    and e: "sz = round_f64 (round_f64 (1000 * round_f64 (2 / 100)) / round_f64 (45000 - 44500))"
    and b: "\<bar>sz - 1000 * 2 / 100 / (45000 - 44500)\<bar> \<le> 1000 * 2 / 100 / (45000 - 44500) / 2 ^ 50"
    by blast
  from e have "sz = round_f64 (4 / 100)"
    by (simp add: risk_amount_20 [simplified] round_f64_numeral)
  with c b v show ?thesis by simp
qed

text \<open>
  Claim C2. For a positive balance and a maximum leverage of at least 1,
  \<open>CalculateLeverage\<close> returns \<open>ceil(size * price / balance)\<close>, the product and the
  quotient being those of \<open>float64\<close>, clamped to \<open>[1, maxLeverage]\<close>: an integer
  between 1 and the maximum.
\<close>

theorem CalculateLeverage_clamp:
  assumes "0 < balance" and "1 \<le> maxLeverage'"
  shows "\<exists>l. CalculateLeverage c size' price balance maxLeverage' = Some l \<and>
             l = spec_clamp \<lceil>round_f64 (round_f64 (size' * price) / balance)\<rceil>
                   1 maxLeverage' \<and>
             1 \<le> l \<and> l \<le> maxLeverage'"
proof -
  from assms(1) have "balance \<noteq> 0" by simp
  from CalculateLeverage_defined [OF this, of c size' price maxLeverage'] assms(2)
  show ?thesis by (auto simp add: spec_clamp_def)
qed

text \<open>
  The example of the claim: size 0.04, price 45000, balance 1000 and maximum 125 give
  the notional value 1800 and the leverage 2. Size 0.1 at price 30 and size 0.01 at
  price 100, on a balance of 1, give 3 and 1: the \<open>float64\<close> products are 3 and 1,
  while the exact products of these sizes lie just above.
\<close>

theorem CalculateLeverage_clamp_witness:
  "(0::real) < 1000 \<and> (1::int) \<le> 125 \<and>
   CalculateLeverage (calculator_New 125) (round_f64 (4 / 100)) 45000 1000 125 = Some 2 \<and>
   CalculateLeverage (calculator_New 125) (round_f64 (1 / 10)) 30 1 125 = Some 3 \<and>
   CalculateLeverage (calculator_New 125) (round_f64 (1 / 100)) 100 1 125 = Some 1"
proof -
  have b: "(0::real) < 1000" and b1: "(0::real) < 1" and m: "(1::int) \<le> 125" by simp_all
  have r2: "\<lceil>round_f64 (round_f64 (round_f64 (4 / 100) * 45000) / 1000)\<rceil> = 2"
    by (simp only: notional_1800 required_2)
  have r3: "\<lceil>round_f64 (round_f64 (round_f64 (1 / 10) * 30) / 1)\<rceil> = 3"
    by (simp add: notional_3 [simplified] round_f64_numeral)
  have r1: "\<lceil>round_f64 (round_f64 (round_f64 (1 / 100) * 100) / 1)\<rceil> = 1"
    by (simp add: notional_1 [simplified] round_f64_1)
  from CalculateLeverage_clamp [OF b m, of "calculator_New 125" "round_f64 (4 / 100)" 45000]
  have "CalculateLeverage (calculator_New 125) (round_f64 (4 / 100)) 45000 1000 125 = Some 2"
    by (auto simp only: r2 spec_clamp_def)
  moreover
  from CalculateLeverage_clamp [OF b1 m, of "calculator_New 125" "round_f64 (1 / 10)" 30]
  have "CalculateLeverage (calculator_New 125) (round_f64 (1 / 10)) 30 1 125 = Some 3"
    by (auto simp only: r3 spec_clamp_def)
  moreover
  from CalculateLeverage_clamp [OF b1 m, of "calculator_New 125" "round_f64 (1 / 100)" 100]
  have "CalculateLeverage (calculator_New 125) (round_f64 (1 / 100)) 100 1 125 = Some 1"
    by (auto simp only: r1 spec_clamp_def)
  ultimately show ?thesis by simp
qed

text \<open>
  Claim C3. \<open>ValidateInputs\<close> returns an error if and only if the entry price is not
  positive, or the stop loss is not positive, or the risk percent is not in \<open>(0, 100]\<close>,
  or the account balance is not positive, or the side is Long with the stop loss at or
  above the entry, or the side is Short with the stop loss at or below the entry;
  otherwise it returns nil.
\<close>

theorem ValidateInputs_error_iff:
  "ValidateInputs c side entryPrice stopLoss riskPercent accountBalance \<noteq> None \<longleftrightarrow>
     entryPrice \<le> 0 \<or> stopLoss \<le> 0 \<or> riskPercent \<le> 0 \<or> riskPercent > 100 \<or>
     accountBalance \<le> 0 \<or> (side = SideLong \<and> stopLoss \<ge> entryPrice) \<or>
     (side = SideShort \<and> stopLoss \<le> entryPrice)"
  by (auto simp add: ValidateInputs_None_iff)

text \<open>
  Equality of entry and stop loss is rejected on both sides, as are a risk of 150
  percent and a negative entry price; a Short position with the stop loss above the
  entry is accepted.
\<close>

theorem ValidateInputs_error_iff_witness:
  "ValidateInputs (calculator_New 125) SideLong 45000 45000 2 1000 \<noteq> None \<and>
   ValidateInputs (calculator_New 125) SideShort 3000 3000 2 1000 \<noteq> None \<and>
   ValidateInputs (calculator_New 125) SideLong 45000 44500 150 1000 \<noteq> None \<and>
   ValidateInputs (calculator_New 125) SideLong (- 45000) 44500 2 1000 \<noteq> None \<and>
   ValidateInputs (calculator_New 125) SideShort 3000 3100 2 1000 = None"
  using ValidateInputs_error_iff [of "calculator_New 125" SideLong 45000 45000 2 1000]
    ValidateInputs_error_iff [of "calculator_New 125" SideShort 3000 3000 2 1000]
    ValidateInputs_error_iff [of "calculator_New 125" SideLong 45000 44500 150 1000]
    ValidateInputs_error_iff [of "calculator_New 125" SideLong "- 45000" 44500 2 1000]
    ValidateInputs_error_iff [of "calculator_New 125" SideShort 3000 3100 2 1000]
  by (simp add: SideLong_neq_SideShort SideLong_neq_SideShort [symmetric])

text \<open>
  Claim C6. \<open>CalculateRRTakeProfit\<close> returns \<open>entry + |entry - stopLoss| * rrRatio\<close>
  for Long and \<open>entry - |entry - stopLoss| * rrRatio\<close> for Short, for every entry,
  stop loss and ratio.
\<close>

theorem CalculateRRTakeProfit_formula:
  "(side = SideLong \<longrightarrow>
      CalculateRRTakeProfit c entry stopLoss rr side = entry + \<bar>entry - stopLoss\<bar> * rr) \<and>
   (side = SideShort \<longrightarrow>
      CalculateRRTakeProfit c entry stopLoss rr side = entry - \<bar>entry - stopLoss\<bar> * rr)"
  by (simp add: CalculateRRTakeProfit_def SideLong_neq_SideShort [symmetric])

text \<open>
  The examples of the claim: Short with entry 3000, stop loss 3100 and ratio 2 gives
  2800; Long with entry 45000, stop loss 44500 and ratio 2 gives 46000.
\<close>

theorem CalculateRRTakeProfit_formula_witness:
  "CalculateRRTakeProfit (calculator_New 125) 3000 3100 2 SideShort = 2800 \<and>
   CalculateRRTakeProfit (calculator_New 125) 45000 44500 2 SideLong = 46000"
  using CalculateRRTakeProfit_formula [of SideShort "calculator_New 125" 3000 3100 2]
    CalculateRRTakeProfit_formula [of SideLong "calculator_New 125" 45000 44500 2]
  by simp

text \<open>
  Claim C9. \<open>CalculatePnLPercent\<close> returns 0 when the entry price is not positive and
  otherwise \<open>(mark - entry) / entry * 100\<close> for Long and \<open>(entry - mark) / entry * 100\<close>
  for Short; \<open>CalculateDistanceToPrice\<close> returns 0 when the current price is not
  positive. Neither divides by zero: both return a value on every input.
\<close>

theorem PnLPercent_and_Distance_total:
  "(entryPrice \<le> 0 \<longrightarrow> CalculatePnLPercent c side entryPrice markPrice = Some 0) \<and>
   (0 < entryPrice \<and> side = SideLong \<longrightarrow>
      CalculatePnLPercent c side entryPrice markPrice
        = Some ((markPrice - entryPrice) / entryPrice * 100)) \<and>
   (0 < entryPrice \<and> side = SideShort \<longrightarrow>
      CalculatePnLPercent c side entryPrice markPrice
        = Some ((entryPrice - markPrice) / entryPrice * 100)) \<and>
   (currentPrice \<le> 0 \<longrightarrow> CalculateDistanceToPrice c side currentPrice targetPrice = Some 0) \<and>
   CalculatePnLPercent c side entryPrice markPrice \<noteq> None \<and>
   CalculateDistanceToPrice c side currentPrice targetPrice \<noteq> None"
  by (simp add: CalculatePnLPercent_def CalculateDistanceToPrice_def fdiv_def
      SideLong_neq_SideShort [symmetric])

theorem PnLPercent_and_Distance_total_witness:
  "CalculatePnLPercent (calculator_New 125) SideLong 0 45000 = Some 0 \<and>
   CalculatePnLPercent (calculator_New 125) SideLong 45000 46000 = Some (20 / 9) \<and>
   CalculatePnLPercent (calculator_New 125) SideShort 3000 2800 = Some (20 / 3) \<and>
   CalculateDistanceToPrice (calculator_New 125) SideShort (- 1) 2800 = Some 0"
  using PnLPercent_and_Distance_total [of 0 "calculator_New 125" SideLong 45000 "- 1" 2800]
    PnLPercent_and_Distance_total [of 45000 "calculator_New 125" SideLong 46000 "- 1" 2800]
    PnLPercent_and_Distance_total [of 3000 "calculator_New 125" SideShort 2800 "- 1" 2800]
  by (simp add: SideLong_neq_SideShort)

section \<open>The fixed risk-reward strategy\<close>

text \<open>
  Claim C5. For every \<open>PositionParams\<close>, \<open>CalculatePosition\<close> returns either the
  error of \<open>ValidateInputs\<close>, wrapped, and no plan, or no error and a complete plan:
  the symbol, side and entry price of the parameters, the size returned by
  \<open>CalculateSize\<close> (positive), the leverage returned by \<open>CalculateLeverage\<close> for
  that size, one stop-loss level with the price \<open>params.StopLoss\<close> and the type Fixed,
  exactly one take-profit level at the price of \<open>CalculateRRTakeProfit\<close>, of type
  Limit and closing 100 percent, the risk amount \<open>balance * riskPercent / 100\<close>, the
  requested risk percent, the notional value \<open>size * entryPrice\<close>, the strategy name
  \<open>risk-ratio\<close> and the time of the call.
\<close>

theorem CalculatePosition_error_or_complete_plan:
  "(\<exists>err. validated s params = Some err \<and>
       CalculatePosition s now params = Some (None, Some (ValidationFailed err))) \<or>
   (validated s params = None \<and>
    (\<exists>sz lev.
       CalculateSize (calculator s) (AccountBalance params)
         (PositionParams.RiskPercent params) (PositionParams.EntryPrice params)
         (PositionParams.StopLoss params)
         (calculatorSideFromStrategy (PositionParams.Side params)) = Some sz \<and>
       0 < sz \<and>
       CalculateLeverage (calculator s) sz (PositionParams.EntryPrice params)
         (AccountBalance params) (MaxLeverage params) = Some lev \<and>
       CalculatePosition s now params
         = Some (Some \<lparr>
             PositionPlan.Symbol = PositionParams.Symbol params,
             Side = PositionParams.Side params,
             Size = sz,
             EntryPrice = PositionParams.EntryPrice params,
             Leverage = lev,
             StopLoss = Some \<lparr>
               StopLossLevel.Price = PositionParams.StopLoss params,
               Type = StopLossTypeFixed,
               ActivationPrice = 0,
               CallbackRate = 0\<rparr>,
             TakeProfits = [\<lparr>
               TakeProfitLevel.Price = CalculateRRTakeProfit (calculator s)
                 (PositionParams.EntryPrice params) (PositionParams.StopLoss params)
                 (rrRatio s) (calculatorSideFromStrategy (PositionParams.Side params)),
               Percentage = 100,
               Type = TakeProfitTypeLimit,
               ActivationPrice = 0,
               CallbackRate = 0\<rparr>],
             RiskAmount = AccountBalance params * PositionParams.RiskPercent params / 100,
             RiskPercent = PositionParams.RiskPercent params,
             NotionalValue = sz * PositionParams.EntryPrice params,
             StrategyName = ''risk-ratio'',
             Timestamp = now\<rparr>, None)))"
proof (cases "validated s params")
  case (Some err)
  then show ?thesis using CalculatePosition_invalid [OF Some] by simp
next
  case None
  from CalculatePosition_valid [OF None, of now] None
  show ?thesis by (auto simp add: plan_of_def)
qed

text \<open>
  A Long position with the stop loss above the entry yields the wrapped error and no
  plan. The first case of the repository's test (balance 1000, risk 2 percent, entry
  45000, stop loss 44500, ratio 2) yields the plan of that test: size 0.04, leverage 2,
  take profit at 46000, risk amount 20.
\<close>

theorem CalculatePosition_error_or_complete_plan_witness:
  "CalculatePosition (riskratio_New 2) 0 (btc_long 46000 125)
     = Some (None, Some (ValidationFailed (LongStopLossNotBelowEntry 46000 45000))) \<and>
   CalculatePosition (riskratio_New 2) 0 (btc_long 44500 125)
     = Some (Some \<lparr>PositionPlan.Symbol = ''BTC-USDT'', Side = SideLong,
          Size = round_f64 (4 / 100), EntryPrice = 45000, Leverage = 2,
          StopLoss = Some \<lparr>StopLossLevel.Price = 44500, Type = StopLossTypeFixed,
            ActivationPrice = 0, CallbackRate = 0\<rparr>,
          TakeProfits = [\<lparr>TakeProfitLevel.Price = 46000, Percentage = 100,
            Type = TakeProfitTypeLimit, ActivationPrice = 0, CallbackRate = 0\<rparr>],
          RiskAmount = 20, RiskPercent = 2, NotionalValue = round_f64 (4 / 100) * 45000,
          StrategyName = ''risk-ratio'', Timestamp = 0\<rparr>, None)"
proof -
  have "CalculatePosition (riskratio_New 2) 0 (btc_long 46000 125)
     = Some (None, Some (ValidationFailed (LongStopLossNotBelowEntry 46000 45000)))"
    using CalculatePosition_error_or_complete_plan [of "riskratio_New 2" "btc_long 46000 125" 0]
    by (auto simp add: validated_btc_long)
  moreover
  from CalculatePosition_error_or_complete_plan [of "riskratio_New 2" "btc_long 44500 125" 0]
  obtain sz lev where
    sz: "CalculateSize (calculator (riskratio_New 2)) (AccountBalance (btc_long 44500 125))
           (PositionParams.RiskPercent (btc_long 44500 125))
           (PositionParams.EntryPrice (btc_long 44500 125))
           (PositionParams.StopLoss (btc_long 44500 125))
           (calculatorSideFromStrategy (PositionParams.Side (btc_long 44500 125))) = Some sz"
    and lev: "CalculateLeverage (calculator (riskratio_New 2)) sz
           (PositionParams.EntryPrice (btc_long 44500 125))
           (AccountBalance (btc_long 44500 125)) (MaxLeverage (btc_long 44500 125)) = Some lev"
    and cp: "CalculatePosition (riskratio_New 2) 0 (btc_long 44500 125)
         = Some (Some \<lparr>
             PositionPlan.Symbol = PositionParams.Symbol (btc_long 44500 125),
             Side = PositionParams.Side (btc_long 44500 125),
             Size = sz,
             EntryPrice = PositionParams.EntryPrice (btc_long 44500 125),
             Leverage = lev,
             StopLoss = Some \<lparr>
               StopLossLevel.Price = PositionParams.StopLoss (btc_long 44500 125),
               Type = StopLossTypeFixed,
               ActivationPrice = 0,
               CallbackRate = 0\<rparr>,
             TakeProfits = [\<lparr>
               TakeProfitLevel.Price = CalculateRRTakeProfit (calculator (riskratio_New 2))
                 (PositionParams.EntryPrice (btc_long 44500 125))
                 (PositionParams.StopLoss (btc_long 44500 125))
                 (rrRatio (riskratio_New 2))
                 (calculatorSideFromStrategy (PositionParams.Side (btc_long 44500 125))),
               Percentage = 100,
               Type = TakeProfitTypeLimit,
               ActivationPrice = 0,
               CallbackRate = 0\<rparr>],
             RiskAmount = AccountBalance (btc_long 44500 125)
                            * PositionParams.RiskPercent (btc_long 44500 125) / 100,
             RiskPercent = PositionParams.RiskPercent (btc_long 44500 125),
             NotionalValue = sz * PositionParams.EntryPrice (btc_long 44500 125),
             StrategyName = ''risk-ratio'',
             Timestamp = 0\<rparr>, None)"
    by (auto simp add: validated_btc_long)
  from sz have s: "sz = round_f64 (4 / 100)"
    by (simp add: btc_long_def calculatorSideFromStrategy_def size_btc_long_44500)
  from lev have l: "lev = 2"
    unfolding s
    by (simp add: btc_long_def leverage_btc_long_44500 [simplified])
  have "CalculatePosition (riskratio_New 2) 0 (btc_long 44500 125)
     = Some (Some \<lparr>PositionPlan.Symbol = ''BTC-USDT'', Side = SideLong,
          Size = round_f64 (4 / 100), EntryPrice = 45000, Leverage = 2,
          StopLoss = Some \<lparr>StopLossLevel.Price = 44500, Type = StopLossTypeFixed,
            ActivationPrice = 0, CallbackRate = 0\<rparr>,
          TakeProfits = [\<lparr>TakeProfitLevel.Price = 46000, Percentage = 100,
            Type = TakeProfitTypeLimit, ActivationPrice = 0, CallbackRate = 0\<rparr>],
          RiskAmount = 20, RiskPercent = 2, NotionalValue = round_f64 (4 / 100) * 45000,
          StrategyName = ''risk-ratio'', Timestamp = 0\<rparr>, None)"
    unfolding cp s l
    by (simp add: btc_long_def CalculateRRTakeProfit_def calculatorSideFromStrategy_def
        riskratio_New_def)
  ultimately show ?thesis by simp
qed

text \<open>
  Claim C7. Two calls of \<open>CalculatePosition\<close> with the same \<open>PositionParams\<close>, at
  any two readings of the clock, return either the same error or two plans that are
  equal in every field except \<open>Timestamp\<close>.
\<close>

theorem CalculatePosition_deterministic:
  "(\<exists>err. CalculatePosition s now1 params = Some (None, Some err) \<and>
          CalculatePosition s now2 params = Some (None, Some err)) \<or>
   (\<exists>plan1 plan2.
      CalculatePosition s now1 params = Some (Some plan1, None) \<and>
      CalculatePosition s now2 params = Some (Some plan2, None) \<and>
      Timestamp plan1 = now1 \<and>
      plan2 = plan1\<lparr>Timestamp := now2\<rparr>)"
proof (cases "validated s params")
  case (Some err)
  show ?thesis
    using CalculatePosition_invalid [OF Some, of now1] CalculatePosition_invalid [OF Some, of now2]
    by simp
next
  case None
  from CalculatePosition_valid [OF None, of now1] CalculatePosition_valid [OF None, of now2]
  show ?thesis by (auto simp add: plan_of_def)
qed


text \<open>
  From the plan computed at clock reading 1, the plan of a second call at reading 2
  follows: the same plan with the later timestamp.
\<close>

theorem CalculatePosition_deterministic_witness:
  "CalculatePosition (riskratio_New 2) 2 (btc_long 44500 125)
   = Some (Some \<lparr>PositionPlan.Symbol = ''BTC-USDT'', Side = SideLong,
        Size = round_f64 (4 / 100), EntryPrice = 45000, Leverage = 2,
        StopLoss = Some \<lparr>StopLossLevel.Price = 44500, Type = StopLossTypeFixed,
          ActivationPrice = 0, CallbackRate = 0\<rparr>,
        TakeProfits = [\<lparr>TakeProfitLevel.Price = 46000, Percentage = 100,
          Type = TakeProfitTypeLimit, ActivationPrice = 0, CallbackRate = 0\<rparr>],
        RiskAmount = 20, RiskPercent = 2, NotionalValue = round_f64 (4 / 100) * 45000,
        StrategyName = ''risk-ratio'', Timestamp = 2\<rparr>, None)"
  using CalculatePosition_deterministic [of "riskratio_New 2" 1 "btc_long 44500 125" 2]
    run_btc_long_44500 [of 1 125]
  by auto

text \<open>
  Claim C8. For every position and every current price, \<open>OnPriceUpdate\<close> returns an
  action of type None and no error, \<open>ShouldClose\<close> returns \<open>(false, "")\<close>, and
  \<open>OnPositionOpened\<close> returns no error.
\<close>

theorem lifecycle_noop:
  "(\<exists>a. OnPriceUpdate s position currentPrice = (Some a, None) \<and>
        StrategyAction.Type a = ActionTypeNone) \<and>
   ShouldClose s position currentPrice = (False, []) \<and>
   OnPositionOpened s position = None"
  by (simp add: OnPriceUpdate_def ShouldClose_def OnPositionOpened_def)

theorem lifecycle_noop_witness:
  "map_option StrategyAction.Type (fst (OnPriceUpdate (riskratio_New 2) None 45000))
     = Some ''NONE'' \<and>
   snd (OnPriceUpdate (riskratio_New 2) None 45000) = None \<and>
   ShouldClose (riskratio_New 2) None 45000 = (False, []) \<and>
   OnPositionOpened (riskratio_New 2) None = None"
  using lifecycle_noop [of "riskratio_New 2" None 45000]
  by (auto simp add: ActionTypeNone_def)


text \<open>
  Claim C4. The strategy is built with \<open>calculator.New(125)\<close>, commented
  ``Max leverage 125x'', and the claim has the plan's leverage never exceed that
  ceiling. The code stores the ceiling and never reads it (see
  \<open>CalculatePosition_ignores_ceiling\<close>): \<open>CalculatePosition\<close> passes the caller's
  \<open>MaxLeverage\<close> to \<open>CalculateLeverage\<close>. With a requested maximum of 200, balance
  1000, risk 2 percent, entry 45000 and stop loss 44995, the size is 4, the notional
  value 180000 and the leverage of the returned plan 180, above 125.
\<close>

theorem Leverage_exceeds_strategy_ceiling:
  "maxLeverage (calculator (riskratio_New 2)) = 125 \<and>
   CalculatePosition (riskratio_New 2) 0
     \<lparr>PositionParams.Symbol = ''BTC-USDT'', Side = SideLong, EntryPrice = 45000,
      StopLoss = 44995, AccountBalance = 1000, RiskPercent = 2, MaxLeverage = 200,
      Params = Map.empty\<rparr>
   = Some (Some \<lparr>PositionPlan.Symbol = ''BTC-USDT'', Side = SideLong, Size = 4,
        EntryPrice = 45000, Leverage = 180,
        StopLoss = Some \<lparr>StopLossLevel.Price = 44995, Type = StopLossTypeFixed,
          ActivationPrice = 0, CallbackRate = 0\<rparr>,
        TakeProfits = [\<lparr>TakeProfitLevel.Price = 45010, Percentage = 100,
          Type = TakeProfitTypeLimit, ActivationPrice = 0, CallbackRate = 0\<rparr>],
        RiskAmount = 20, RiskPercent = 2, NotionalValue = 180000,
        StrategyName = ''risk-ratio'', Timestamp = 0\<rparr>, None) \<and>
   \<not> (180 \<le> (125::int))"
  using run_btc_long_44995 [of 0 200]
  by (simp add: btc_long_def riskratio_New_def calculator_New_def)

text \<open>
  Claim C10. Whenever the required leverage \<open>ceil(size * price / balance)\<close>, as
  \<open>CalculateLeverage\<close> computes it, exceeds \<open>maxLeverage\<close>, the function returns
  \<open>maxLeverage\<close> itself, also when it is below 1; the lower bound 1 is applied only
  when the required leverage does not exceed \<open>maxLeverage\<close>. Nothing validates
  \<open>MaxLeverage\<close>: for inputs that pass \<open>ValidateInputs\<close> and a requested maximum
  below 1, \<open>CalculatePosition\<close> returns a plan whose leverage is that maximum.
\<close>

theorem CalculateLeverage_nonpositive_max:
  "(balance \<noteq> 0 \<and> maxLeverage' < \<lceil>round_f64 (round_f64 (size' * price) / balance)\<rceil> \<longrightarrow>
      CalculateLeverage c size' price balance maxLeverage' = Some maxLeverage') \<and>
   (balance \<noteq> 0 \<and> \<lceil>round_f64 (round_f64 (size' * price) / balance)\<rceil> \<le> maxLeverage' \<and>
      \<lceil>round_f64 (round_f64 (size' * price) / balance)\<rceil> < 1 \<longrightarrow>
      CalculateLeverage c size' price balance maxLeverage' = Some 1) \<and>
   (validated s params = None \<and> MaxLeverage params < 1 \<longrightarrow>
      (\<exists>plan. CalculatePosition s now params = Some (Some plan, None) \<and>
              Leverage plan = MaxLeverage params))"
proof (intro conjI impI)
  assume a: "balance \<noteq> 0 \<and> maxLeverage' < \<lceil>round_f64 (round_f64 (size' * price) / balance)\<rceil>"
  then have "balance \<noteq> 0" by simp
  from CalculateLeverage_defined [OF this, of c size' price maxLeverage'] a
  show "CalculateLeverage c size' price balance maxLeverage' = Some maxLeverage'"
    by simp
next
  assume a: "balance \<noteq> 0 \<and> \<lceil>round_f64 (round_f64 (size' * price) / balance)\<rceil> \<le> maxLeverage' \<and>
      \<lceil>round_f64 (round_f64 (size' * price) / balance)\<rceil> < 1"
  then have "balance \<noteq> 0" by simp
  from CalculateLeverage_defined [OF this, of c size' price maxLeverage'] a
  show "CalculateLeverage c size' price balance maxLeverage' = Some 1"
    by auto
next
  assume a: "validated s params = None \<and> MaxLeverage params < 1"
  then have v: "validated s params = None" and m: "MaxLeverage params < 1" by simp_all
  from CalculatePosition_valid [OF v, of now] obtain sz where
    req: "1 \<le> \<lceil>round_f64 (round_f64 (sz * PositionParams.EntryPrice params)
                        / AccountBalance params)\<rceil>"
    and cp: "CalculatePosition s now params
       = Some (Some (plan_of s now params sz
           (min \<lceil>round_f64 (round_f64 (sz * PositionParams.EntryPrice params)
                         / AccountBalance params)\<rceil> (MaxLeverage params))), None)"
    by blast
  from req m have "min \<lceil>round_f64 (round_f64 (sz * PositionParams.EntryPrice params)
                         / AccountBalance params)\<rceil> (MaxLeverage params)
                   = MaxLeverage params" by linarith
  with cp show "\<exists>plan. CalculatePosition s now params = Some (Some plan, None) \<and>
              Leverage plan = MaxLeverage params"
    by (simp add: plan_of_def)
qed

text \<open>
  With \<open>maxLeverage = 0\<close> the leverage is 0, from \<open>CalculateLeverage\<close> and in the plan
  of \<open>CalculatePosition\<close>; with a notional value of 0 and \<open>maxLeverage = 125\<close> it is 1.
\<close>

theorem CalculateLeverage_nonpositive_max_witness:
  "CalculateLeverage (calculator_New 125) (4 / 100) 45000 1000 0 = Some 0 \<and>
   CalculateLeverage (calculator_New 125) 0 45000 1000 125 = Some 1 \<and>
   map_option (map_option Leverage) (map_option fst
       (CalculatePosition (riskratio_New 2) 0 (btc_long 44500 0))) = Some (Some 0)"
proof -
  have r: "\<lceil>round_f64 (round_f64 (4 / 100 * 45000) / 1000)\<rceil> = 2"
    by (simp add: round_f64_numeral required_2 [simplified])
  have z: "\<lceil>round_f64 (round_f64 (0 * 45000) / 1000)\<rceil> = 0"
    by (simp add: round_f64_0)
  have "CalculateLeverage (calculator_New 125) (4 / 100) 45000 1000 0 = Some 0"
    using CalculateLeverage_nonpositive_max [of 1000 0 "4 / 100" 45000 "calculator_New 125"]
    by (simp only: r) simp
  moreover have "CalculateLeverage (calculator_New 125) 0 45000 1000 125 = Some 1"
    using CalculateLeverage_nonpositive_max [of 1000 125 0 45000 "calculator_New 125"]
    by (simp only: z) simp
  moreover have "map_option (map_option Leverage) (map_option fst
       (CalculatePosition (riskratio_New 2) 0 (btc_long 44500 0))) = Some (Some 0)"
  proof -
    have h: "validated (riskratio_New 2) (btc_long 44500 0) = None \<and>
             MaxLeverage (btc_long 44500 0) < 1"
      using validated_btc_long(1) [of 2 0] by (simp add: btc_long_def)
    from CalculateLeverage_nonpositive_max
      [of 1000 0 "4 / 100" 45000 "calculator_New 125" "riskratio_New 2" "btc_long 44500 0" 0] h
    obtain plan where
      "CalculatePosition (riskratio_New 2) 0 (btc_long 44500 0) = Some (Some plan, None)"
      and "Leverage plan = MaxLeverage (btc_long 44500 0)"
      by blast
    then show ?thesis by (simp add: btc_long_def)
  qed
  ultimately show ?thesis by simp
qed

end
